theory Spec2Isabelle
  imports Complex_Main
begin

section \<open>The joint variational auto-encoder of scvi/models/jvae.py\<close>

text \<open>
  A shallow embedding of the class \<open>JVAE\<close>. Conventions of the embedding:

  \<^item> A two-dimensional tensor is the list of its rows (one row per cell); a one-dimensional
    tensor is a list. Tensor entries are real numbers: the arithmetic is the exact
    arithmetic that the floating-point operations of the tensor engine approximate, so
    \<open>torch.log\<close> is \<open>ln\<close>, \<open>torch.exp\<close> is \<open>exp\<close>, and every equation below holds of the
    program up to rounding. Where the engine yields an infinity or a NaN (a division by
    zero, the logarithm of a non-positive number) the embedding yields the value that
    HOL gives to the total functions \<open>/\<close> and \<open>ln\<close>; the theorems that depend on such a
    value exclude it by a hypothesis.
  \<^item> An exception is a value \<open>Inl e\<close> of a sum type; a normal return is \<open>Inr v\<close>.
  \<^item> The sub-networks (multi-head encoder, library encoders, multi-head decoder) are
    fields of the model, as in the class. They are arbitrary functions: they may raise,
    and they draw random numbers (the reparameterisation sample, dropout), so each takes
    the state of the random generator and returns the next one.
\<close>

subsection \<open>Errors\<close>

datatype error =
    PyException string   \<comment> \<open>\<open>raise Exception(msg)\<close>\<close>
  | TypeError            \<comment> \<open>\<open>None\<close> used as an index, or called\<close>
  | IndexError           \<comment> \<open>an index out of range\<close>
  | AttributeError       \<comment> \<open>an attribute that \<open>__init__\<close> did not set, or of \<open>None\<close>\<close>
  | ValueError           \<comment> \<open>a slice step that is not positive\<close>
  | RuntimeError         \<comment> \<open>the tensor engine: shapes that do not broadcast or match\<close>

definition bindE :: "error + 'a \<Rightarrow> ('a \<Rightarrow> error + 'b) \<Rightarrow> error + 'b" where
  "bindE r f = (case r of Inl e \<Rightarrow> Inl e | Inr v \<Rightarrow> f v)"

fun sequenceE :: "(error + 'a) list \<Rightarrow> error + 'a list" where
  "sequenceE [] = Inr []"
| "sequenceE (r # rs) = bindE r (\<lambda>v. bindE (sequenceE rs) (\<lambda>vs. Inr (v # vs)))"

subsection \<open>Python list indexing\<close>

text \<open>
  \<open>xs[i]\<close> for a Python list (and for a \<open>ModuleList\<close>): \<open>None\<close> is not an index, a negative
  index counts from the end, an index out of range raises.
\<close>

definition py_index :: "'a list \<Rightarrow> int option \<Rightarrow> error + 'a" where
  "py_index xs i =
     (case i of
        None \<Rightarrow> Inl TypeError
      | Some k \<Rightarrow>
          (let n = int (length xs); j = (if k < 0 then n + k else k)
           in if 0 \<le> j \<and> j < n then Inr (xs ! nat j) else Inl IndexError))"

subsection \<open>Tensors\<close>

type_synonym tensor = "real list list"

text \<open>
  Broadcasting of an elementwise binary operation along one axis: equal sizes pair up,
  an axis of size 1 is repeated, anything else is a shape error. \<open>tensor_op2\<close> applies
  it to the rows and then inside each pair of rows.
\<close>

definition broadcast2 :: "('a \<Rightarrow> 'b \<Rightarrow> 'c) \<Rightarrow> 'a list \<Rightarrow> 'b list \<Rightarrow> error + 'c list" where
  "broadcast2 f xs ys =
     (if length xs = length ys then Inr (map2 f xs ys)
      else if length ys = 1 then Inr (map (\<lambda>x. f x (hd ys)) xs)
      else if length xs = 1 then Inr (map (f (hd xs)) ys)
      else Inl RuntimeError)"

definition tensor_op2 ::
  "('a \<Rightarrow> 'b \<Rightarrow> 'c) \<Rightarrow> 'a list list \<Rightarrow> 'b list list \<Rightarrow> error + 'c list list" where
  "tensor_op2 f a b = bindE (broadcast2 (broadcast2 f) a b) sequenceE"

text \<open>\<open>torch.sum(t, dim=1)\<close> and \<open>.view(-1, 1)\<close>.\<close>

definition sum_dim1 :: "tensor \<Rightarrow> real list" where
  "sum_dim1 t = map sum_list t"

definition view_col :: "real list \<Rightarrow> tensor" where
  "view_col v = map (\<lambda>a. [a]) v"

text \<open>
  An index mapping is an array of column indices or a slice (\<open>Union[np.ndarray, slice]\<close>).
  \<open>columns im n\<close> are the columns that \<open>t[:, im]\<close> selects from rows of width \<open>n\<close>. An index
  array may hold negative indices and raises when an index is out of range; a slice is
  clamped to the width (\<open>slice.indices\<close>), and the tensor engine refuses a step that is not
  positive.
\<close>

datatype index_mapping =
    Indices "int list"
  | Slice "int option" "int option" "int option"

definition slice_bound :: "int option \<Rightarrow> int \<Rightarrow> int \<Rightarrow> int" where
  "slice_bound b dflt n =
     (case b of None \<Rightarrow> dflt | Some k \<Rightarrow> (if k < 0 then max (k + n) 0 else min k n))"

fun columns :: "index_mapping \<Rightarrow> nat \<Rightarrow> error + nat list" where
  "columns (Indices idx) n =
     (if \<forall>i \<in> set idx. - int n \<le> i \<and> i < int n
      then Inr (map (\<lambda>i. nat (if i < 0 then i + int n else i)) idx)
      else Inl IndexError)"
| "columns (Slice start stop step) n =
     (let st = (case step of None \<Rightarrow> 1 | Some k \<Rightarrow> k)
      in if st \<le> 0 then Inl ValueError
         else (let lo = slice_bound start 0 (int n); hi = slice_bound stop (int n) (int n)
               in Inr (map (\<lambda>k. nat (lo + int k * st)) [0..<nat ((hi - lo + st - 1) div st)])))"

definition gather_row :: "index_mapping \<Rightarrow> 'a list \<Rightarrow> error + 'a list" where
  "gather_row im row = bindE (columns im (length row)) (\<lambda>cs. Inr (map (\<lambda>c. row ! c) cs))"

definition gather_cols :: "'a list list \<Rightarrow> index_mapping \<Rightarrow> error + 'a list list" where
  "gather_cols t im = sequenceE (map (gather_row im) t)"

subsection \<open>The model object\<close>

text \<open>
  The attributes that \<open>__init__\<close> sets and the methods read. A sub-network takes the state
  of the random generator last. \<open>px_r\<close> is the owned dispersion parameter: a vector for
  dispersion \<open>gene\<close>, a matrix (one row per gene) for \<open>gene-batch\<close> and \<open>gene-label\<close>, not set
  otherwise.
\<close>

datatype parameter = Tensor1 "real list" | Tensor2 tensor

type_synonym 's encoder_out = "error + ((tensor \<times> tensor \<times> tensor) \<times> 's)"
type_synonym 's decoder_out = "error + ((tensor \<times> tensor \<times> tensor \<times> tensor) \<times> 's)"

record 's jvae =
  n_input_list :: "nat list"
  total_genes :: nat
  indices_mappings :: "index_mapping list"
  reconstruction_losses :: "string list"
  model_library_bools :: "bool list"
  n_batch :: nat
  n_labels :: nat
  dispersion :: string
  log_variational :: bool
  z_encoder :: "tensor \<Rightarrow> int option \<Rightarrow> 's \<Rightarrow> 's encoder_out"
  l_encoders :: "(tensor \<Rightarrow> 's \<Rightarrow> 's encoder_out) option list"
  decoder :: "tensor \<Rightarrow> int option \<Rightarrow> tensor \<Rightarrow> string \<Rightarrow> int list option \<Rightarrow> int list option
                \<Rightarrow> 's \<Rightarrow> 's decoder_out"
  px_r :: "parameter option"

subsection \<open>encode\<close>

type_synonym encoded = "tensor \<times> tensor \<times> tensor \<times> tensor option \<times> tensor option \<times> tensor"

definition encoder_input :: "'s jvae \<Rightarrow> tensor \<Rightarrow> tensor" where
  "encoder_input m x = (if log_variational m then map (map (\<lambda>v. ln (1 + v))) x else x)"

definition encode :: "'s jvae \<Rightarrow> tensor \<Rightarrow> int option \<Rightarrow> 's \<Rightarrow> error + (encoded \<times> 's)" where
  "encode m x mode s =
     (let x' = encoder_input m x in
      bindE (z_encoder m x' mode s) (\<lambda>((qz_m, qz_v, z), s1).
      bindE (py_index (model_library_bools m) mode) (\<lambda>flag.
        if flag then
          bindE (py_index (l_encoders m) mode) (\<lambda>l_encoder.
            case l_encoder of
              None \<Rightarrow> Inl TypeError
            | Some enc \<Rightarrow>
                bindE (enc x' s1) (\<lambda>((ql_m, ql_v, library), s2).
                  Inr ((qz_m, qz_v, z, Some ql_m, Some ql_v, library), s2)))
        else Inr ((qz_m, qz_v, z, None, None, view_col (map ln (sum_dim1 x))), s1))))"

subsection \<open>decode\<close>

text \<open>
  Modelled from the spec: \<open>one_hot\<close> of \<open>scvi.models.utils\<close> is not part of this file. The
  spec describes it as mapping integer category indices to one-hot matrices (an
  indicator matrix with one row per index and one column per category), and an index
  out of range as a computation failure. An absent index tensor fails as well.
\<close>

definition one_hot :: "int list option \<Rightarrow> nat \<Rightarrow> error + tensor" where
  "one_hot index n_cat =
     (case index of
        None \<Rightarrow> Inl AttributeError
      | Some idx \<Rightarrow>
          (if \<forall>i \<in> set idx. 0 \<le> i \<and> i < int n_cat
           then Inr (map (\<lambda>i. map (\<lambda>c. if int c = i then 1 else 0) [0..<n_cat]) idx)
           else Inl RuntimeError))"

text \<open>
  \<open>F.linear(input, weight)\<close> without bias: every row of the input is multiplied with the
  transposed weight matrix; the row widths of input and weight must agree.
\<close>

definition dot :: "real list \<Rightarrow> real list \<Rightarrow> real" where
  "dot u v = sum_list (map2 (*) u v)"

definition linear :: "tensor \<Rightarrow> tensor \<Rightarrow> error + tensor" where
  "linear inp weight =
     (if \<forall>row \<in> set inp. \<forall>w \<in> set weight. length row = length w
      then Inr (map (\<lambda>row. map (\<lambda>w. dot row w) weight) inp)
      else Inl RuntimeError)"

text \<open>
  The owned parameter as a weight matrix, and as the single row \<open>px_r.view(1, px_r.size(0))\<close>.
  \<open>__init__\<close> creates a vector exactly for dispersion \<open>gene\<close> and a matrix exactly for
  \<open>gene-batch\<close> and \<open>gene-label\<close>. A state in which the dispersion mode and the shape of the
  parameter disagree is not built by \<open>__init__\<close>; for the one such combination on which the
  tensor engine would still compute (a vector used as a weight matrix) the embedding
  reports a shape error.
\<close>

definition weight_of :: "parameter option \<Rightarrow> error + tensor" where
  "weight_of p =
     (case p of None \<Rightarrow> Inl AttributeError
      | Some (Tensor1 v) \<Rightarrow> Inl RuntimeError
      | Some (Tensor2 w) \<Rightarrow> Inr w)"

definition view_row :: "parameter option \<Rightarrow> error + tensor" where
  "view_row p =
     (case p of None \<Rightarrow> Inl AttributeError
      | Some (Tensor1 v) \<Rightarrow> Inr [v]
      | Some (Tensor2 w) \<Rightarrow> (if \<forall>row \<in> set w. length row = 1 then Inr [concat w] else Inl RuntimeError))"

text \<open>Lines 299 to 304: the dispersion in log space, before it is exponentiated.\<close>

definition resolve_px_r ::
  "'s jvae \<Rightarrow> tensor \<Rightarrow> int list option \<Rightarrow> int list option \<Rightarrow> error + tensor" where
  "resolve_px_r m px_r_raw batch_index y =
     (if dispersion m = ''gene-label'' then
        bindE (one_hot y (n_labels m)) (\<lambda>oh. bindE (weight_of (px_r m)) (\<lambda>w. linear oh w))
      else if dispersion m = ''gene-batch'' then
        bindE (one_hot batch_index (n_batch m)) (\<lambda>oh. bindE (weight_of (px_r m)) (\<lambda>w. linear oh w))
      else if dispersion m = ''gene'' then view_row (px_r m)
      else Inr px_r_raw)"

definition decode ::
  "'s jvae \<Rightarrow> tensor \<Rightarrow> int option \<Rightarrow> tensor \<Rightarrow> int list option \<Rightarrow> int list option \<Rightarrow> 's
     \<Rightarrow> 's decoder_out" where
  "decode m z mode library batch_index y s =
     bindE (decoder m z mode library (dispersion m) batch_index y s)
       (\<lambda>((px_scale, px_r_raw, px_rate_raw, px_dropout), s1).
     bindE (resolve_px_r m px_r_raw batch_index y) (\<lambda>px_r_log.
     let px_r' = map (map exp) px_r_log in
     bindE (py_index (indices_mappings m) mode) (\<lambda>im.
     bindE (gather_cols px_scale im) (\<lambda>g.
     bindE (tensor_op2 (/) px_scale (view_col (sum_dim1 g))) (\<lambda>px_scale'.
     bindE (tensor_op2 (*) px_scale' (map (map exp) library)) (\<lambda>px_rate.
     Inr ((px_scale', px_r', px_rate, px_dropout), s1)))))))"

subsection \<open>reconstruction_loss\<close>

text \<open>
  The log-densities are imported functions whose code is not in this file
  (\<open>log_zinb_positive\<close> and \<open>log_nb_positive\<close> of \<open>scvi.models.log_likelihood\<close>, and the
  \<open>log_prob\<close> of the tensor engine's Poisson distribution, called with the rate and the
  counts). They are parameters of the embedding. The first two return one value per cell,
  the third one value per cell and gene.
\<close>

record likelihoods =
  log_zinb_positive :: "tensor \<Rightarrow> tensor \<Rightarrow> tensor \<Rightarrow> tensor \<Rightarrow> error + real list"
  log_nb_positive :: "tensor \<Rightarrow> tensor \<Rightarrow> tensor \<Rightarrow> error + real list"
  poisson_log_prob :: "tensor \<Rightarrow> tensor \<Rightarrow> error + tensor"

definition reconstruction_loss ::
  "likelihoods \<Rightarrow> 's jvae \<Rightarrow> tensor \<Rightarrow> tensor \<Rightarrow> tensor \<Rightarrow> tensor \<Rightarrow> int option
     \<Rightarrow> error + real list option" where
  "reconstruction_loss L m x px_rate px_r' px_dropout mode =
     bindE (py_index (reconstruction_losses m) mode) (\<lambda>kind1.
     if kind1 = ''zinb'' then
       bindE (log_zinb_positive L x px_rate px_r' px_dropout) (\<lambda>ll. Inr (Some (map uminus ll)))
     else
     bindE (py_index (reconstruction_losses m) mode) (\<lambda>kind2.
     if kind2 = ''nb'' then
       bindE (log_nb_positive L x px_rate px_r') (\<lambda>ll. Inr (Some (map uminus ll)))
     else
     bindE (py_index (reconstruction_losses m) mode) (\<lambda>kind3.
     if kind3 = ''poisson'' then
       bindE (poisson_log_prob L px_rate x) (\<lambda>lp. Inr (Some (map uminus (sum_dim1 lp))))
     else Inr None)))"

subsection \<open>Normal distributions and their Kullback-Leibler divergence\<close>

text \<open>
  \<open>Normal(loc, scale)\<close> of the tensor engine broadcasts its two parameters to one shape; a
  distribution is the tensor of its (loc, scale) pairs. \<open>kl(p, q)\<close> for two normal
  distributions is computed by the engine, elementwise with broadcasting, as
  \<open>0.5 * (var_ratio + t1 - 1 - log(var_ratio))\<close> with \<open>var_ratio = (p.scale / q.scale)^2\<close>
  and \<open>t1 = ((p.loc - q.loc) / q.scale)^2\<close>. The parameters are not validated.
\<close>

type_synonym normal = "(real \<times> real) list list"

definition Normal :: "tensor \<Rightarrow> tensor \<Rightarrow> error + normal" where
  "Normal loc scale = tensor_op2 Pair loc scale"

definition kl_normal_normal :: "real \<times> real \<Rightarrow> real \<times> real \<Rightarrow> real" where
  "kl_normal_normal p q =
     (let var_ratio = (snd p / snd q)\<^sup>2; t1 = ((fst p - fst q) / snd q)\<^sup>2
      in 0.5 * (var_ratio + t1 - 1 - ln var_ratio))"

definition kl :: "normal \<Rightarrow> normal \<Rightarrow> error + tensor" where
  "kl p q = tensor_op2 kl_normal_normal p q"

definition tensor_sqrt :: "tensor \<Rightarrow> tensor" where
  "tensor_sqrt t = map (map sqrt) t"


subsection \<open>forward\<close>

text \<open>
  The mode resolution that opens \<open>forward\<close> and \<open>sample_from_posterior_z\<close>; the two differ
  in the message of the exception only.
\<close>

definition resolve_mode :: "'s jvae \<Rightarrow> int option \<Rightarrow> string \<Rightarrow> error + int option" where
  "resolve_mode m mode msg =
     (case mode of
        None \<Rightarrow> (if length (n_input_list m) = 1 then Inr (Some 0) else Inl (PyException msg))
      | Some k \<Rightarrow> Inr (Some k))"

text \<open>Lines 336 to 345: mode resolution, encode, and the internal decode step.\<close>

definition forward_decode ::
  "'s jvae \<Rightarrow> tensor \<Rightarrow> int list option \<Rightarrow> int list option \<Rightarrow> int option \<Rightarrow> 's
     \<Rightarrow> error + ((int option \<times> encoded \<times> (tensor \<times> tensor \<times> tensor \<times> tensor)) \<times> 's)" where
  "forward_decode m x batch_index y mode s =
     bindE (resolve_mode m mode ''Must provide a mode'') (\<lambda>mode'.
     bindE (encode m x mode' s) (\<lambda>((qz_m, qz_v, z, ql_m, ql_v, library), s1).
     bindE (decode m z mode' library batch_index y s1) (\<lambda>(decoded, s2).
     Inr ((mode', (qz_m, qz_v, z, ql_m, ql_v, library), decoded), s2))))"

text \<open>Lines 358 to 362: the divergence of the latent posterior from the standard normal.\<close>

definition kl_divergence_z :: "tensor \<Rightarrow> tensor \<Rightarrow> error + real list" where
  "kl_divergence_z qz_m qz_v =
     (let mean = map (map (\<lambda>_. 0)) qz_m; scale = map (map (\<lambda>_. 1)) qz_v in
      bindE (Normal qz_m (tensor_sqrt qz_v)) (\<lambda>p.
      bindE (Normal mean scale) (\<lambda>q.
      bindE (kl p q) (\<lambda>d. Inr (sum_dim1 d)))))"

text \<open>Lines 364 to 370: the divergence of the library posterior from its prior.\<close>

definition kl_divergence_l ::
  "'s jvae \<Rightarrow> int option \<Rightarrow> tensor option \<Rightarrow> tensor option \<Rightarrow> tensor \<Rightarrow> tensor \<Rightarrow> real list
     \<Rightarrow> error + real list" where
  "kl_divergence_l m mode ql_m ql_v local_l_mean local_l_var kl_z =
     bindE (py_index (model_library_bools m) mode) (\<lambda>flag.
     if flag then
       (case (ql_m, ql_v) of
          (Some qm, Some qv) \<Rightarrow>
            bindE (Normal qm (tensor_sqrt qv)) (\<lambda>p.
            bindE (Normal local_l_mean (tensor_sqrt local_l_var)) (\<lambda>q.
            bindE (kl p q) (\<lambda>d. Inr (sum_dim1 d))))
        | _ \<Rightarrow> Inl TypeError)
     else Inr (map (\<lambda>_. 0) kl_z))"

definition forward ::
  "likelihoods \<Rightarrow> 's jvae \<Rightarrow> tensor \<Rightarrow> tensor \<Rightarrow> tensor \<Rightarrow> int list option \<Rightarrow> int list option
     \<Rightarrow> int option \<Rightarrow> 's \<Rightarrow> error + ((real list option \<times> real list) \<times> 's)" where
  "forward L m x local_l_mean local_l_var batch_index y mode s =
     bindE (forward_decode m x batch_index y mode s)
       (\<lambda>((mode', (qz_m, qz_v, z, ql_m, ql_v, library), (px_scale, px_r', px_rate, px_dropout)), s2).
     bindE (py_index (indices_mappings m) mode') (\<lambda>mapping_indices.
     bindE (gather_cols px_rate mapping_indices) (\<lambda>rate_g.
     bindE (gather_cols px_r' mapping_indices) (\<lambda>r_g.
     bindE (gather_cols px_dropout mapping_indices) (\<lambda>dropout_g.
     bindE (reconstruction_loss L m x rate_g r_g dropout_g mode') (\<lambda>rec_loss.
     bindE (kl_divergence_z qz_m qz_v) (\<lambda>kl_z.
     bindE (kl_divergence_l m mode' ql_m ql_v local_l_mean local_l_var kl_z) (\<lambda>kl_l.
     bindE (broadcast2 (+) kl_l kl_z) (\<lambda>kl_total.
     Inr ((rec_loss, kl_total), s2))))))))))"

subsection \<open>Posterior sampling accessors\<close>

definition sample_from_posterior_z ::
  "'s jvae \<Rightarrow> tensor \<Rightarrow> int option \<Rightarrow> bool \<Rightarrow> 's \<Rightarrow> error + (tensor \<times> 's)" where
  "sample_from_posterior_z m x mode deterministic s =
     bindE (resolve_mode m mode ''Must provide a mode when having multiple datasets'') (\<lambda>mode'.
     bindE (encode m x mode' s) (\<lambda>((qz_m, qz_v, z, ql_m, ql_v, library), s1).
     Inr (if deterministic then qz_m else z, s1)))"

definition sample_from_posterior_l ::
  "'s jvae \<Rightarrow> tensor \<Rightarrow> int option \<Rightarrow> bool \<Rightarrow> 's \<Rightarrow> error + (tensor \<times> 's)" where
  "sample_from_posterior_l m x mode deterministic s =
     bindE (encode m x mode s) (\<lambda>((qz_m, qz_v, z, ql_m, ql_v, library), s1).
     Inr (if deterministic \<and> ql_m \<noteq> None then the ql_m else library, s1))"

definition sample_scale ::
  "'s jvae \<Rightarrow> tensor \<Rightarrow> int option \<Rightarrow> int list option \<Rightarrow> int list option \<Rightarrow> bool \<Rightarrow> int option
     \<Rightarrow> 's \<Rightarrow> error + (tensor \<times> 's)" where
  "sample_scale m x mode batch_index y deterministic decode_mode s =
     (let decode_mode' = (if decode_mode = None then mode else decode_mode) in
      bindE (encode m x mode s) (\<lambda>((qz_m, qz_v, z, ql_m, ql_v, library), s1).
      let z' = (if deterministic then qz_m else z);
          library' = (if deterministic \<and> ql_m \<noteq> None then the ql_m else library) in
      bindE (decode m z' decode_mode' library' batch_index y s1)
        (\<lambda>((px_scale, px_r', px_rate, px_dropout), s2). Inr (px_scale, s2))))"

definition sample_rate ::
  "'s jvae \<Rightarrow> tensor \<Rightarrow> int option \<Rightarrow> int list option \<Rightarrow> int list option \<Rightarrow> bool \<Rightarrow> int option
     \<Rightarrow> 's \<Rightarrow> error + (tensor \<times> 's)" where
  "sample_rate m x mode batch_index y deterministic decode_mode s =
     (let decode_mode' = (if decode_mode = None then mode else decode_mode) in
      bindE (encode m x mode s) (\<lambda>((qz_m, qz_v, z, ql_m, ql_v, library), s1).
      let z' = (if deterministic then qz_m else z);
          library' = (if deterministic \<and> ql_m \<noteq> None then the ql_m else library) in
      bindE (decode m z' decode_mode' library' batch_index y s1)
        (\<lambda>((px_scale, px_r', px_rate, px_dropout), s2). Inr (px_rate, s2))))"

text \<open>
  \<open>get_sample_rate(self, x, batch_index, *_, **__)\<close>: the further positional and keyword
  arguments are of any type.
\<close>

definition get_sample_rate ::
  "'s jvae \<Rightarrow> tensor \<Rightarrow> int list option \<Rightarrow> 'a list \<Rightarrow> (string \<times> 'b) list \<Rightarrow> 's
     \<Rightarrow> error + (tensor \<times> 's)" where
  "get_sample_rate m x batch_index args kwargs s =
     sample_rate m x (Some 0) batch_index None False None s"

subsection \<open>Example models\<close>

text \<open>
  Small concrete models on which the properties below are run. The random generator is a
  counter. The encoder returns mean 0 and variance 1 and a sample that depends on the
  state of the generator; the decoder returns a scale over seven genes whose first entry
  is the latent value it was given.
\<close>

definition ex_z_encoder :: "tensor \<Rightarrow> int option \<Rightarrow> int \<Rightarrow> int encoder_out" where
  "ex_z_encoder x head s =
     (case head of
        None \<Rightarrow> Inl TypeError
      | Some k \<Rightarrow> Inr ((map (\<lambda>_. [0]) x, map (\<lambda>_. [1]) x, map (\<lambda>_. [1 + real_of_int s]) x), s + 1))"

definition ex_l_encoder :: "tensor \<Rightarrow> int \<Rightarrow> int encoder_out" where
  "ex_l_encoder x s = Inr ((map (\<lambda>_. [0]) x, map (\<lambda>_. [1]) x, map (\<lambda>_. [0]) x), s + 1)"

definition ex_decoder ::
  "tensor \<Rightarrow> int option \<Rightarrow> tensor \<Rightarrow> string \<Rightarrow> int list option \<Rightarrow> int list option \<Rightarrow> int
     \<Rightarrow> int decoder_out" where
  "ex_decoder z head library disp batch_index y s =
     Inr ((map (\<lambda>row. [hd row, 1, 2, 2, 2, 2, 2]) z,
           map (\<lambda>row. [hd row, 0, 0, 0, 0, 0, 0]) z,
           map (\<lambda>_. [5, 5, 5, 5, 5, 5, 5]) z,
           map (\<lambda>_. [0, 0, 0, 0, 0, 0, 0]) z), s + 1)"

text \<open>
  Two datasets with the disjoint gene panels 0, 1, 2 and 3, 4, 5, 6 of seven genes; the
  first takes its library size from the counts, the second has a library encoder.
\<close>

definition ex_model :: "int jvae" where
  "ex_model =
     \<lparr> n_input_list = [3, 4], total_genes = 7,
       indices_mappings = [Indices [0, 1, 2], Indices [3, 4, 5, 6]],
       reconstruction_losses = [''poisson'', ''zinb''],
       model_library_bools = [False, True],
       n_batch = 2, n_labels = 2, dispersion = ''gene-batch'', log_variational = True,
       z_encoder = ex_z_encoder, l_encoders = [None, Some ex_l_encoder],
       decoder = ex_decoder,
       px_r = Some (Tensor2 [[0, 1], [0, 1], [0, 1], [0, 1], [0, 1], [0, 1], [0, 1]]) \<rparr>"

text \<open>One dataset, with a reconstruction-loss kind that is none of the three known ones.\<close>

definition ex_single :: "int jvae" where
  "ex_single =
     \<lparr> n_input_list = [3], total_genes = 7,
       indices_mappings = [Indices [0, 1, 2]],
       reconstruction_losses = [''gaussian''],
       model_library_bools = [False],
       n_batch = 2, n_labels = 2, dispersion = ''gene'', log_variational = True,
       z_encoder = ex_z_encoder, l_encoders = [None],
       decoder = ex_decoder,
       px_r = Some (Tensor1 [0, 0, 0, 0, 0, 0, 0]) \<rparr>"

definition ex_likelihoods :: likelihoods where
  "ex_likelihoods =
     \<lparr> log_zinb_positive = (\<lambda>x rate r dropout. Inr (map (\<lambda>_. 0) x)),
       log_nb_positive = (\<lambda>x rate r. Inr (map (\<lambda>_. 0) x)),
       poisson_log_prob = (\<lambda>rate x. Inr (map (map (\<lambda>_. 0)) x)) \<rparr>"

section \<open>Properties\<close>

subsection \<open>Auxiliary facts\<close>

lemma bindE_Inl [simp]: "bindE (Inl e) f = Inl e"
  by (simp add: bindE_def)

lemma bindE_Inr [simp]: "bindE (Inr v) f = f v"
  by (simp add: bindE_def)

lemma bindE_eq_Inr: "bindE r f = Inr b \<longleftrightarrow> (\<exists>a. r = Inr a \<and> f a = Inr b)"
  by (cases r) simp_all

lemma sequenceE_map_Inr [simp]: "sequenceE (map Inr vs) = Inr vs"
  by (induction vs) simp_all

lemma sequenceE_map_Inr_comp [simp]: "sequenceE (map (Inr \<circ> g) xs) = Inr (map g xs)"
  by (induction xs) simp_all

lemma sequenceE_eq_Inr: "sequenceE rs = Inr vs \<longleftrightarrow> rs = map Inr vs"
proof (induction rs arbitrary: vs)
  case Nil
  show ?case by auto
next
  case (Cons r rs)
  show ?case
  proof (cases r)
    case (Inl e)
    then show ?thesis by auto
  next
    case (Inr v)
    show ?thesis
    proof (cases "sequenceE rs")
      case (Inl e)
      with Cons.IH[of "tl vs"] Inr show ?thesis by (cases vs) auto
    next
      case r2: (Inr ws)
      with Cons.IH[of ws] have "rs = map Inr ws" by simp
      with Inr r2 show ?thesis by (cases vs) auto
    qed
  qed
qed

lemma slice_bound_range: "0 \<le> dflt \<Longrightarrow> dflt \<le> n \<Longrightarrow> 0 \<le> slice_bound b dflt n \<and> slice_bound b dflt n \<le> n"
  by (auto simp: slice_bound_def split: option.splits)

lemma slice_index_less:
  fixes lo hi st :: int
  assumes "0 < st" "0 \<le> lo" and k: "int k < (hi - lo + st - 1) div st"
  shows "lo + int k * st < hi"
proof -
  have "int k + 1 \<le> (hi - lo + st - 1) div st" using k by simp
  then have "(int k + 1) * st \<le> ((hi - lo + st - 1) div st) * st"
    using assms(1) by (simp add: mult_right_mono)
  also have "\<dots> \<le> hi - lo + st - 1"
    using div_mult_mod_eq[of "hi - lo + st - 1" st] pos_mod_sign[OF assms(1), of "hi - lo + st - 1"]
    by linarith
  finally show ?thesis by (simp add: algebra_simps)
qed


lemma columns_less: "columns im n = Inr cs \<Longrightarrow> c \<in> set cs \<Longrightarrow> c < n"
proof (cases im)
  case (Indices idx)
  assume "columns im n = Inr cs" "c \<in> set cs"
  with Indices obtain i where i: "i \<in> set idx" "- int n \<le> i \<and> i < int n"
    "c = nat (if i < 0 then i + int n else i)"
    by (auto split: if_splits)
  then show ?thesis by (simp split: if_splits)
next
  case (Slice start stop step)
  assume a: "columns im n = Inr cs" "c \<in> set cs"
  define st where "st = (case step of None \<Rightarrow> 1 | Some k \<Rightarrow> k)"
  define lo where "lo = slice_bound start 0 (int n)"
  define hi where "hi = slice_bound stop (int n) (int n)"
  from a(1) Slice have st: "0 < st" and cs: "cs = map (\<lambda>k. nat (lo + int k * st)) [0..<nat ((hi - lo + st - 1) div st)]"
    by (auto simp: st_def lo_def hi_def Let_def split: if_splits)
  have lo: "0 \<le> lo" and hi: "hi \<le> int n"
    using slice_bound_range[of 0 "int n" start] slice_bound_range[of "int n" "int n" stop]
    by (simp_all add: lo_def hi_def)
  from a(2) cs obtain k where k: "k < nat ((hi - lo + st - 1) div st)" "c = nat (lo + int k * st)"
    by auto
  then have "int k < (hi - lo + st - 1) div st" by linarith
  from slice_index_less[OF st lo this] hi have "lo + int k * st < int n" by linarith
  moreover have "0 \<le> lo + int k * st" using lo st by simp
  ultimately show ?thesis using k(2) by (simp add: nat_less_iff)
qed

lemma gather_row_map:
  assumes "gather_row im row = Inr g"
  shows "gather_row im (map f row) = Inr (map f g)"
proof -
  from assms obtain cs where cs: "columns im (length row) = Inr cs" "g = map (\<lambda>c. row ! c) cs"
    by (auto simp: gather_row_def bindE_eq_Inr)
  have "map (\<lambda>c. map f row ! c) cs = map f (map (\<lambda>c. row ! c) cs)"
    using columns_less[OF cs(1)] by simp
  with cs show ?thesis by (simp add: gather_row_def)
qed

lemma broadcast2_singleton: "broadcast2 f row [a] = Inr (map (\<lambda>v. f v a) row)"
proof (cases "length row = 1")
  case True
  then obtain r where "row = [r]" by (cases row) auto
  then show ?thesis by (simp add: broadcast2_def)
next
  case False
  then show ?thesis by (simp add: broadcast2_def)
qed

lemma tensor_op2_col:
  assumes "length v = length t"
  shows "tensor_op2 f t (view_col v) = Inr (map2 (\<lambda>row a. map (\<lambda>x. f x a) row) t v)"
proof -
  have "length t = length v" using assms by simp
  then have "map2 (broadcast2 f) t (map (\<lambda>a. [a]) v) = map Inr (map2 (\<lambda>row a. map (\<lambda>x. f x a) row) t v)"
    by (induction t v rule: list_induct2) (simp_all add: broadcast2_singleton)
  moreover have "broadcast2 (broadcast2 f) t (map (\<lambda>a. [a]) v)
      = Inr (map2 (broadcast2 f) t (map (\<lambda>a. [a]) v))"
    using assms by (simp add: broadcast2_def[where f = "broadcast2 f"])
  ultimately show ?thesis
    by (simp add: tensor_op2_def view_col_def)
qed

subsection \<open>Runs of the example models\<close>

lemma ex_model_simps [simp]:
  "n_input_list ex_model = [3, 4]"
  "indices_mappings ex_model = [Indices [0, 1, 2], Indices [3, 4, 5, 6]]"
  "reconstruction_losses ex_model = [''poisson'', ''zinb'']"
  "model_library_bools ex_model = [False, True]"
  "n_batch ex_model = 2" "n_labels ex_model = 2"
  "dispersion ex_model = ''gene-batch''" "log_variational ex_model = True"
  "z_encoder ex_model = ex_z_encoder" "l_encoders ex_model = [None, Some ex_l_encoder]"
  "decoder ex_model = ex_decoder"
  "px_r ex_model = Some (Tensor2 [[0, 1], [0, 1], [0, 1], [0, 1], [0, 1], [0, 1], [0, 1]])"
  by (simp_all add: ex_model_def)

lemma ex_single_simps [simp]:
  "n_input_list ex_single = [3]"
  "indices_mappings ex_single = [Indices [0, 1, 2]]"
  "reconstruction_losses ex_single = [''gaussian'']"
  "model_library_bools ex_single = [False]"
  "n_batch ex_single = 2" "n_labels ex_single = 2"
  "dispersion ex_single = ''gene''" "log_variational ex_single = True"
  "z_encoder ex_single = ex_z_encoder" "l_encoders ex_single = [None]"
  "decoder ex_single = ex_decoder"
  "px_r ex_single = Some (Tensor1 [0, 0, 0, 0, 0, 0, 0])"
  by (simp_all add: ex_single_def)

lemma ex_likelihoods_simps [simp]:
  "log_zinb_positive ex_likelihoods = (\<lambda>x rate r dropout. Inr (map (\<lambda>_. 0) x))"
  "log_nb_positive ex_likelihoods = (\<lambda>x rate r. Inr (map (\<lambda>_. 0) x))"
  "poisson_log_prob ex_likelihoods = (\<lambda>rate x. Inr (map (map (\<lambda>_. 0)) x))"
  by (simp_all add: ex_likelihoods_def)

lemma ex_single_encode:
  "encode ex_single [[1, 0, 0]] (Some 0) 0 = Inr (([[0]], [[1]], [[1]], None, None, [[0]]), 1)"
  by (simp add: encode_def encoder_input_def ex_z_encoder_def py_index_def view_col_def sum_dim1_def)

lemma ex_single_decode:
  "decode ex_single [[1]] (Some 0) [[0]] None None 1
     = Inr (([[1/4, 1/4, 1/2, 1/2, 1/2, 1/2, 1/2]], [[1, 1, 1, 1, 1, 1, 1]],
             [[1/4, 1/4, 1/2, 1/2, 1/2, 1/2, 1/2]], [[0, 0, 0, 0, 0, 0, 0]]), 2)"
  by (simp add: decode_def ex_decoder_def resolve_px_r_def view_row_def py_index_def
        gather_cols_def gather_row_def tensor_op2_def broadcast2_def view_col_def sum_dim1_def)

lemma ex_single_forward:
  "forward ex_likelihoods ex_single [[1, 0, 0]] [[0]] [[1]] None None (Some 0) 0
     = Inr ((None, [0]), 2)"
  by (simp add: forward_def forward_decode_def resolve_mode_def ex_single_encode ex_single_decode
        py_index_def gather_cols_def gather_row_def reconstruction_loss_def
        kl_divergence_z_def kl_divergence_l_def Normal_def kl_def kl_normal_normal_def
        tensor_sqrt_def tensor_op2_def broadcast2_def sum_dim1_def)



lemma ex_model_encode1:
  "encode ex_model [[1, 0, 0, 0]] (Some 1) 0
     = Inr (([[0]], [[1]], [[1]], Some [[0]], Some [[1]], [[0]]), 2)"
  by (simp add: encode_def encoder_input_def ex_z_encoder_def ex_l_encoder_def py_index_def)

subsection \<open>Library size, mode resolution and dispatch\<close>

text \<open>
  C3. For a mode whose library flag is false, \<open>encode\<close> returns \<open>ql_m\<close> and \<open>ql_v\<close> absent and, as
  library, the logarithm of the per-cell sum of the raw input \<open>x\<close> (not of the
  log-transformed encoder input), whenever the latent encoder returns. Whenever \<open>encode\<close>
  returns, \<open>ql_m\<close> and \<open>ql_v\<close> are present exactly if the flag of the mode is true.
\<close>

theorem encode_library_flag:
  "(py_index (model_library_bools m) mode = Inr False \<longrightarrow>
    z_encoder m (encoder_input m x) mode s = Inr ((qz_m, qz_v, z), s1) \<longrightarrow>
      encode m x mode s
        = Inr ((qz_m, qz_v, z, None, None, map (\<lambda>row. [ln (sum_list row)]) x), s1))
   \<and> (encode m x mode s = Inr ((qz_m', qz_v', z', ql_m, ql_v, library), s2) \<longrightarrow>
        (ql_m \<noteq> None \<longleftrightarrow> py_index (model_library_bools m) mode = Inr True)
      \<and> (ql_v \<noteq> None \<longleftrightarrow> py_index (model_library_bools m) mode = Inr True))"
  by (auto simp: encode_def Let_def bindE_eq_Inr view_col_def sum_dim1_def
           split: if_splits option.splits)

theorem encode_library_flag_witness:
  "py_index (model_library_bools ex_model) (Some 0) = Inr False
   \<and> z_encoder ex_model (encoder_input ex_model [[1, 0, 0]]) (Some 0) 0
       = Inr (([[0]], [[1]], [[1]]), 1)
   \<and> encode ex_model [[1, 0, 0]] (Some 0) 0 = Inr (([[0]], [[1]], [[1]], None, None, [[0]]), 1)
   \<and> encode ex_model [[1, 0, 0, 0]] (Some 1) 0
       = Inr (([[0]], [[1]], [[1]], Some [[0]], Some [[1]], [[0]]), 2)
   \<and> py_index (model_library_bools ex_model) (Some 1) = Inr True"
  using encode_library_flag [of ex_model "Some 0" "[[1, 0, 0]]" 0 "[[0]]" "[[1]]" "[[1]]" 1
      "[[0]]" "[[1]]" "[[1]]" None None "[[0]]" 1]
    encode_library_flag [of ex_model "Some 1" "[[1, 0, 0, 0]]" 0 "[[0]]" "[[1]]" "[[1]]" 1
      "[[0]]" "[[1]]" "[[1]]" "Some [[0]]" "Some [[1]]" "[[0]]" 2]
  by (simp add: py_index_def ex_z_encoder_def encoder_input_def ex_model_encode1)

text \<open>
  C4. In \<open>forward\<close> and \<open>sample_from_posterior_z\<close>, an omitted mode is mode 0 when exactly one
  dataset is registered; with any other number of datasets the call raises the
  exception, whatever the sub-networks are, so nothing has been encoded.
\<close>

theorem mode_defaulting:
  "(length (n_input_list m) = 1 \<longrightarrow>
      forward L m x local_l_mean local_l_var batch_index y None s
        = forward L m x local_l_mean local_l_var batch_index y (Some 0) s
    \<and> sample_from_posterior_z m x None deterministic s
        = sample_from_posterior_z m x (Some 0) deterministic s)
   \<and> (length (n_input_list m) \<noteq> 1 \<longrightarrow>
      forward L m x local_l_mean local_l_var batch_index y None s
        = Inl (PyException ''Must provide a mode'')
    \<and> sample_from_posterior_z m x None deterministic s
        = Inl (PyException ''Must provide a mode when having multiple datasets''))"
  by (simp add: forward_def forward_decode_def sample_from_posterior_z_def resolve_mode_def)

theorem mode_defaulting_witness:
  "length (n_input_list ex_single) = 1
   \<and> forward ex_likelihoods ex_single [[1, 0, 0]] [[0]] [[1]] None None None 0
       = Inr ((None, [0]), 2)
   \<and> sample_from_posterior_z ex_single [[1, 0, 0]] None False 0 = Inr ([[1]], 1)
   \<and> length (n_input_list ex_model) \<noteq> 1
   \<and> forward ex_likelihoods ex_model [[1, 0, 0]] [[0]] [[1]] None None None 0
       = Inl (PyException ''Must provide a mode'')
   \<and> sample_from_posterior_z ex_model [[1, 0, 0]] None False 0
       = Inl (PyException ''Must provide a mode when having multiple datasets'')"
  using mode_defaulting [of ex_single ex_likelihoods "[[1, 0, 0]]" "[[0]]" "[[1]]" None None 0 False]
    mode_defaulting [of ex_model ex_likelihoods "[[1, 0, 0]]" "[[0]]" "[[1]]" None None 0 False]
  by (simp add: ex_single_forward sample_from_posterior_z_def resolve_mode_def ex_single_encode)

text \<open>
  C8. When the reconstruction-loss kind registered for the mode is none of \<open>zinb\<close>, \<open>nb\<close> and
  \<open>poisson\<close>, \<open>reconstruction_loss\<close> returns \<open>None\<close> without raising, and every return of
  \<open>forward\<close> for that mode carries \<open>None\<close> as its reconstruction loss.
\<close>

theorem reconstruction_loss_unknown_kind:
  "(py_index (reconstruction_losses m) mode = Inr kind \<longrightarrow>
    kind \<notin> {''zinb'', ''nb'', ''poisson''} \<longrightarrow>
      reconstruction_loss L m x px_rate px_r' px_dropout mode = Inr None)
   \<and> (resolve_mode m mode0 ''Must provide a mode'' = Inr mode \<longrightarrow>
      py_index (reconstruction_losses m) mode = Inr kind \<longrightarrow>
      kind \<notin> {''zinb'', ''nb'', ''poisson''} \<longrightarrow>
      forward L m x local_l_mean local_l_var batch_index y mode0 s = Inr ((rec_loss, kl_total), s')
        \<longrightarrow> rec_loss = None)"
proof (intro conjI impI)
  assume k: "py_index (reconstruction_losses m) mode = Inr kind"
    "kind \<notin> {''zinb'', ''nb'', ''poisson''}"
  then show r: "reconstruction_loss L m x px_rate px_r' px_dropout mode = Inr None"
    for x px_rate px_r' px_dropout
    by (simp add: reconstruction_loss_def)
  assume "resolve_mode m mode0 ''Must provide a mode'' = Inr mode"
    "forward L m x local_l_mean local_l_var batch_index y mode0 s = Inr ((rec_loss, kl_total), s')"
  then show "rec_loss = None"
    by (auto simp: forward_def forward_decode_def bindE_eq_Inr r)
qed

theorem reconstruction_loss_unknown_kind_witness:
  "py_index (reconstruction_losses ex_single) (Some 0) = Inr ''gaussian''
   \<and> ''gaussian'' \<notin> {''zinb'', ''nb'', ''poisson''}
   \<and> reconstruction_loss ex_likelihoods ex_single [[1, 0, 0]] [[1/4, 1/4, 1/2]] [[1, 1, 1]]
        [[0, 0, 0]] (Some 0) = Inr None
   \<and> resolve_mode ex_single None ''Must provide a mode'' = Inr (Some 0)
   \<and> forward ex_likelihoods ex_single [[1, 0, 0]] [[0]] [[1]] None None None 0
       = Inr ((None, [0]), 2)"
  using reconstruction_loss_unknown_kind [of ex_single "Some 0" "''gaussian''" ex_likelihoods
      "[[1, 0, 0]]" "[[1/4, 1/4, 1/2]]" "[[1, 1, 1]]" "[[0, 0, 0]]" None "[[0]]" "[[1]]" None None
      0 None "[0]" 2]
  by (simp add: py_index_def resolve_mode_def forward_def forward_decode_def ex_single_encode
        ex_single_decode gather_cols_def gather_row_def
        kl_divergence_z_def kl_divergence_l_def Normal_def kl_def kl_normal_normal_def
        tensor_sqrt_def tensor_op2_def broadcast2_def sum_dim1_def)

text \<open>
  C9. \<open>sample_from_posterior_l\<close> hands its mode to \<open>encode\<close> unchanged. With the mode omitted
  it raises: either the latent encoder raises on the absent head, or the absent mode is used
  as a list index, which is a \<open>TypeError\<close>. This holds also with a single dataset, where
  \<open>sample_from_posterior_z\<close> with the mode omitted behaves as with mode 0.
\<close>

theorem sample_from_posterior_l_no_default:
  "(\<exists>e. sample_from_posterior_l m x None deterministic s = Inl e
        \<and> (e = TypeError \<or> z_encoder m (encoder_input m x) None s = Inl e))
   \<and> (length (n_input_list m) = 1 \<longrightarrow>
        sample_from_posterior_z m x None deterministic s
          = sample_from_posterior_z m x (Some 0) deterministic s)"
proof -
  have "py_index (model_library_bools m) None = Inl TypeError"
    by (simp add: py_index_def)
  then show ?thesis
    by (cases "z_encoder m (encoder_input m x) None s")
       (auto simp: sample_from_posterior_l_def sample_from_posterior_z_def resolve_mode_def
          encode_def Let_def)
qed

lemma ex_single_encode_None: "encode ex_single [[1, 0, 0]] None 0 = Inl TypeError"
  by (simp add: encode_def ex_z_encoder_def)

theorem sample_from_posterior_l_no_default_witness:
  "length (n_input_list ex_single) = 1
   \<and> sample_from_posterior_l ex_single [[1, 0, 0]] None False 0 = Inl TypeError
   \<and> sample_from_posterior_l ex_single [[1, 0, 0]] (Some 0) False 0 = Inr ([[0]], 1)
   \<and> sample_from_posterior_z ex_single [[1, 0, 0]] None False 0 = Inr ([[1]], 1)"
  using sample_from_posterior_l_no_default [of ex_single "[[1, 0, 0]]" False 0]
  by (simp add: sample_from_posterior_l_def sample_from_posterior_z_def resolve_mode_def
        ex_single_encode ex_single_encode_None)

text \<open>
  C10. \<open>get_sample_rate\<close> is \<open>sample_rate\<close> on head 0 with the defaults: no labels, a sampled
  (not the mean) latent value, and decoding through the head that encoded. It encodes with
  head 0, decodes with head 0, and its extra positional and keyword arguments do not
  matter.
\<close>

theorem get_sample_rate_head0:
  "get_sample_rate m x batch_index args kwargs s = sample_rate m x (Some 0) batch_index None False None s
   \<and> get_sample_rate m x batch_index args kwargs s
       = sample_rate m x (Some 0) batch_index None False (Some 0) s
   \<and> get_sample_rate m x batch_index args kwargs s
       = bindE (encode m x (Some 0) s) (\<lambda>((qz_m, qz_v, z, ql_m, ql_v, library), s1).
         bindE (decode m z (Some 0) library batch_index None s1)
           (\<lambda>((px_scale, px_r', px_rate, px_dropout), s2). Inr (px_rate, s2)))
   \<and> get_sample_rate m x batch_index args kwargs s = get_sample_rate m x batch_index args' kwargs' s"
  by (simp add: get_sample_rate_def sample_rate_def)

theorem get_sample_rate_head0_witness:
  "get_sample_rate ex_single [[1, 0, 0]] None [True] [(''n_samples'', 1 :: nat)] 0
     = Inr ([[1/4, 1/4, 1/2, 1/2, 1/2, 1/2, 1/2]], 2)
   \<and> sample_rate ex_single [[1, 0, 0]] (Some 0) None None False None 0
     = Inr ([[1/4, 1/4, 1/2, 1/2, 1/2, 1/2, 1/2]], 2)"
  using get_sample_rate_head0 [of ex_single "[[1, 0, 0]]" None "[True]" "[(''n_samples'', 1 :: nat)]" 0
      "[] :: unit list" "[] :: (string \<times> unit) list"]
  by (simp add: sample_rate_def ex_single_encode ex_single_decode)

subsection \<open>Renormalisation and rate in decode\<close>

lemma gather_cols_length: "gather_cols t im = Inr g \<Longrightarrow> length g = length t"
  by (auto simp: gather_cols_def sequenceE_eq_Inr dest: arg_cong[where f = length])

lemma gather_cols_nth:
  assumes "gather_cols t im = Inr g" "i < length t"
  shows "gather_row im (t ! i) = Inr (g ! i)"
proof -
  have eq: "map (gather_row im) t = map Inr g"
    using assms(1) by (simp add: gather_cols_def sequenceE_eq_Inr)
  have "i < length g" using gather_cols_length[OF assms(1)] assms(2) by simp
  with arg_cong[OF eq, of "\<lambda>xs. xs ! i"] assms(2) show ?thesis by simp
qed

lemma gather_cols_intro:
  assumes "length g = length t" "\<And>i. i < length t \<Longrightarrow> gather_row im (t ! i) = Inr (g ! i)"
  shows "gather_cols t im = Inr g"
  unfolding gather_cols_def sequenceE_eq_Inr
  using assms by (simp add: list_eq_iff_nth_eq)

lemma renormalize_eq:
  assumes "gather_cols px_scale im = Inr g"
  shows "tensor_op2 (/) px_scale (view_col (sum_dim1 g))
           = Inr (map2 (\<lambda>row grow. map (\<lambda>v. v / sum_list grow) row) px_scale g)"
proof -
  have len: "length g = length px_scale" using assms by (rule gather_cols_length)
  have "map2 (\<lambda>row a. map (\<lambda>v. v / a) row) px_scale (map sum_list g)
          = map2 (\<lambda>row grow. map (\<lambda>v. v / sum_list grow) row) px_scale g"
    using len by (simp add: list_eq_iff_nth_eq)
  then show ?thesis
    using tensor_op2_col[of "sum_dim1 g" px_scale "(/)"] len by (simp add: sum_dim1_def)
qed

lemma decode_Inr:
  assumes "decode m z mode library batch_index y s = Inr ((px_scale, px_r', px_rate, px_dropout), s')"
  obtains raw_scale px_r_raw px_rate_raw px_r_log im g where
    "decoder m z mode library (dispersion m) batch_index y s
       = Inr ((raw_scale, px_r_raw, px_rate_raw, px_dropout), s')"
    "resolve_px_r m px_r_raw batch_index y = Inr px_r_log"
    "px_r' = map (map exp) px_r_log"
    "py_index (indices_mappings m) mode = Inr im"
    "gather_cols raw_scale im = Inr g"
    "px_scale = map2 (\<lambda>row grow. map (\<lambda>v. v / sum_list grow) row) raw_scale g"
    "tensor_op2 (*) px_scale (map (map exp) library) = Inr px_rate"
proof -
  from assms obtain raw_scale px_r_raw px_rate_raw px_r_log im g where
    a: "decoder m z mode library (dispersion m) batch_index y s
       = Inr ((raw_scale, px_r_raw, px_rate_raw, px_dropout), s')"
    "resolve_px_r m px_r_raw batch_index y = Inr px_r_log"
    "px_r' = map (map exp) px_r_log"
    "py_index (indices_mappings m) mode = Inr im"
    "gather_cols raw_scale im = Inr g"
    and b: "tensor_op2 (/) raw_scale (view_col (sum_dim1 g)) = Inr px_scale"
    "tensor_op2 (*) px_scale (map (map exp) library) = Inr px_rate"
    unfolding decode_def by (auto simp: bindE_eq_Inr Let_def)
  from b(1) renormalize_eq[OF a(5)]
  have "px_scale = map2 (\<lambda>row grow. map (\<lambda>v. v / sum_list grow) row) raw_scale g" by simp
  with a b(2) that show thesis by blast
qed

lemma gather_cols_renormalized:
  assumes "gather_cols raw im = Inr g"
  shows "gather_cols (map2 (\<lambda>row grow. map (\<lambda>v. v / sum_list grow) row) raw g) im
           = Inr (map (\<lambda>grow. map (\<lambda>v. v / sum_list grow) grow) g)"
proof (rule gather_cols_intro)
  have len: "length g = length raw" using assms by (rule gather_cols_length)
  then show "length (map (\<lambda>grow. map (\<lambda>v. v / sum_list grow) grow) g)
      = length (map2 (\<lambda>row grow. map (\<lambda>v. v / sum_list grow) row) raw g)" by simp
  fix i assume "i < length (map2 (\<lambda>row grow. map (\<lambda>v. v / sum_list grow) row) raw g)"
  then have i: "i < length raw" using len by simp
  from gather_row_map[OF gather_cols_nth[OF assms i], of "\<lambda>v. v / sum_list (g ! i)"] i len
  show "gather_row im (map2 (\<lambda>row grow. map (\<lambda>v. v / sum_list grow) row) raw g ! i)
      = Inr (map (\<lambda>grow. map (\<lambda>v. v / sum_list grow) grow) g ! i)"
    by simp
qed

lemma sum_list_divide: "sum_list (map (\<lambda>v. v / c) xs) = sum_list xs / (c :: real)"
  by (induction xs) (simp_all add: add_divide_distrib)


lemma resolve_px_r_decoder [simp]:
  "resolve_px_r (m\<lparr>decoder := d\<rparr>) px_r_raw batch_index y
     = resolve_px_r m px_r_raw batch_index y"
  by (simp add: resolve_px_r_def cong: if_cong)

lemma resolve_px_r_indices_mappings [simp]:
  "resolve_px_r (m\<lparr>indices_mappings := ims\<rparr>) px_r_raw batch_index y
     = resolve_px_r m px_r_raw batch_index y"
  by (simp add: resolve_px_r_def cong: if_cong)

text \<open>
  C1. When \<open>decode\<close> returns, its \<open>px_scale\<close> is the decoder's raw scale divided, cell by
  cell, by the sum of the raw scale gathered at the columns of the mode's index mapping
  (not by the sum of the whole row). Gathered at the same columns, the returned \<open>px_scale\<close>
  sums to 1 in every cell whose gathered raw sum is not zero (as it is for the positive
  output of a softmax on a panel that is not empty). The result depends on the index
  mappings through the entry of the mode only, so the panels of other datasets do not
  enter the normalisation.
\<close>

theorem decode_renormalization:
  assumes "decode m z mode library batch_index y s
             = Inr ((px_scale, px_r', px_rate, px_dropout), s')"
    and "decoder m z mode library (dispersion m) batch_index y s
             = Inr ((raw_scale, px_r_raw, px_rate_raw, dropout_raw), s1)"
    and "py_index (indices_mappings m) mode = Inr im"
  shows "\<exists>g g'. gather_cols raw_scale im = Inr g
           \<and> px_scale = map2 (\<lambda>row grow. map (\<lambda>v. v / sum_list grow) row) raw_scale g
           \<and> gather_cols px_scale im = Inr g'
           \<and> length g' = length raw_scale \<and> length g = length raw_scale
           \<and> (\<forall>i < length raw_scale. sum_list (g ! i) \<noteq> 0 \<longrightarrow> sum_list (g' ! i) = 1)
           \<and> (\<forall>ims. py_index ims mode = Inr im \<longrightarrow>
                decode (m\<lparr>indices_mappings := ims\<rparr>) z mode library batch_index y s
                  = decode m z mode library batch_index y s)"
proof -
  from assms(1) obtain raw px_r_raw' px_rate_raw' px_r_log im' g where d:
    "decoder m z mode library (dispersion m) batch_index y s
       = Inr ((raw, px_r_raw', px_rate_raw', px_dropout), s')"
    "py_index (indices_mappings m) mode = Inr im'"
    "gather_cols raw im' = Inr g"
    "px_scale = map2 (\<lambda>row grow. map (\<lambda>v. v / sum_list grow) row) raw g"
    by (rule decode_Inr)
  from d(1,2) assms(2,3) have eq: "raw = raw_scale" "im' = im" by simp_all
  define g' where "g' = map (\<lambda>grow. map (\<lambda>v. v / sum_list grow) grow) g"
  have len: "length g = length raw_scale" using gather_cols_length[OF d(3)] eq by simp
  have 1: "gather_cols px_scale im = Inr g'"
    using gather_cols_renormalized[OF d(3)] d(4) eq by (simp add: g'_def)
  have 2: "\<forall>i < length raw_scale. sum_list (g ! i) \<noteq> 0 \<longrightarrow> sum_list (g' ! i) = 1"
    using len by (simp add: g'_def sum_list_divide)
  have 3: "\<forall>ims. py_index ims mode = Inr im \<longrightarrow>
      decode (m\<lparr>indices_mappings := ims\<rparr>) z mode library batch_index y s
        = decode m z mode library batch_index y s"
    using assms(3) by (simp add: decode_def)
  from d(3,4) eq len 1 2 3 show ?thesis by (auto simp: g'_def)
qed

lemma upt_0_2: "[0..<2] = [0, Suc 0]"
  by (simp add: upt_rec)

lemma ex_model_decoder:
  "decoder ex_model [[1]] mode [[0]] (dispersion ex_model) (Some [0]) None 0
     = Inr (([[1, 1, 2, 2, 2, 2, 2]], [[1, 0, 0, 0, 0, 0, 0]], [[5, 5, 5, 5, 5, 5, 5]],
             [[0, 0, 0, 0, 0, 0, 0]]), 1)"
  by (simp add: ex_decoder_def)

lemma ex_model_one_hot: "one_hot (Some [0]) 2 = Inr [[1, 0]]"
  by (simp add: one_hot_def upt_0_2)

lemma ex_model_resolve_px_r:
  "resolve_px_r ex_model r (Some [0]) None = Inr [[0, 0, 0, 0, 0, 0, 0]]"
  by (simp add: resolve_px_r_def ex_model_one_hot weight_of_def linear_def dot_def)


lemma ex_model_decode0:
  "decode ex_model [[1]] (Some 0) [[0]] (Some [0]) None 0
     = Inr (([[1/4, 1/4, 1/2, 1/2, 1/2, 1/2, 1/2]], [[1, 1, 1, 1, 1, 1, 1]],
             [[1/4, 1/4, 1/2, 1/2, 1/2, 1/2, 1/2]], [[0, 0, 0, 0, 0, 0, 0]]), 1)"
  by (simp add: decode_def ex_decoder_def ex_model_resolve_px_r py_index_def
        gather_cols_def gather_row_def tensor_op2_def broadcast2_def view_col_def sum_dim1_def)

lemma ex_model_decode1:
  "decode ex_model [[1]] (Some 1) [[0]] (Some [0]) None 0
     = Inr (([[1/8, 1/8, 1/4, 1/4, 1/4, 1/4, 1/4]], [[1, 1, 1, 1, 1, 1, 1]],
             [[1/8, 1/8, 1/4, 1/4, 1/4, 1/4, 1/4]], [[0, 0, 0, 0, 0, 0, 0]]), 1)"
  by (simp add: decode_def ex_decoder_def ex_model_resolve_px_r py_index_def
        gather_cols_def gather_row_def tensor_op2_def broadcast2_def view_col_def sum_dim1_def)

lemma ex_model_mappings:
  "py_index (indices_mappings ex_model) (Some 0) = Inr (Indices [0, 1, 2])"
  "py_index (indices_mappings ex_model) (Some 1) = Inr (Indices [3, 4, 5, 6])"
  by (simp_all add: py_index_def)


theorem decode_renormalization_witness:
  "decode ex_model [[1]] (Some 0) [[0]] (Some [0]) None 0
     = Inr (([[1/4, 1/4, 1/2, 1/2, 1/2, 1/2, 1/2]], [[1, 1, 1, 1, 1, 1, 1]],
             [[1/4, 1/4, 1/2, 1/2, 1/2, 1/2, 1/2]], [[0, 0, 0, 0, 0, 0, 0]]), 1)
   \<and> gather_cols [[1/4, 1/4, 1/2, 1/2, 1/2, 1/2, 1/2 :: real]] (Indices [0, 1, 2])
       = Inr [[1/4, 1/4, 1/2]]
   \<and> sum_list [1/4, 1/4, 1/2] = (1 :: real)
   \<and> decode ex_model [[1]] (Some 1) [[0]] (Some [0]) None 0
     = Inr (([[1/8, 1/8, 1/4, 1/4, 1/4, 1/4, 1/4]], [[1, 1, 1, 1, 1, 1, 1]],
             [[1/8, 1/8, 1/4, 1/4, 1/4, 1/4, 1/4]], [[0, 0, 0, 0, 0, 0, 0]]), 1)
   \<and> gather_cols [[1/8, 1/8, 1/4, 1/4, 1/4, 1/4, 1/4 :: real]] (Indices [3, 4, 5, 6])
       = Inr [[1/4, 1/4, 1/4, 1/4]]
   \<and> sum_list [1/4, 1/4, 1/4, 1/4] = (1 :: real)"
proof -
  note w0 = decode_renormalization [OF ex_model_decode0 ex_model_decoder ex_model_mappings(1)]
  note w1 = decode_renormalization [OF ex_model_decode1 ex_model_decoder ex_model_mappings(2)]
  have g0: "gather_cols [[1/4, 1/4, 1/2, 1/2, 1/2, 1/2, 1/2 :: real]] (Indices [0, 1, 2])
       = Inr [[1/4, 1/4, 1/2]]"
    by (simp add: gather_cols_def gather_row_def)
  have g1: "gather_cols [[1/8, 1/8, 1/4, 1/4, 1/4, 1/4, 1/4 :: real]] (Indices [3, 4, 5, 6])
       = Inr [[1/4, 1/4, 1/4, 1/4]]"
    by (simp add: gather_cols_def gather_row_def)
  from w0 w1 show ?thesis
    unfolding ex_model_decode0 ex_model_decode1 g0 g1 by simp
qed

lemma singleton_rows_view_col:
  assumes "\<forall>row \<in> set t. length row = 1"
  shows "map (map f) t = view_col (map (\<lambda>row. f (hd row)) t)"
proof -
  have "map f row = [f (hd row)]" if "row \<in> set t" for row
  proof -
    from that assms have "length row = 1" by simp
    then obtain a where "row = [a]" by (cases row) auto
    then show ?thesis by simp
  qed
  then show ?thesis by (simp add: view_col_def)
qed

lemma decode_decoder_rate:
  "decode (m\<lparr>decoder := \<lambda>z mode library disp b y s.
             map_sum id (\<lambda>((sc, r, rt, d), s1). ((sc, r, rate', d), s1))
               (decoder m z mode library disp b y s)\<rparr>) z mode library batch_index y s
     = decode m z mode library batch_index y s"
proof (cases "decoder m z mode library (dispersion m) batch_index y s")
  case (Inl e)
  then show ?thesis by (simp add: decode_def)
next
  case (Inr r)
  obtain sc r0 rt d s1 where "r = ((sc, r0, rt, d), s1)"
    by (cases r) auto
  with Inr show ?thesis by (simp add: decode_def)
qed


text \<open>
  C2. When \<open>decode\<close> returns, its \<open>px_rate\<close> is the renormalised \<open>px_scale\<close> that it returns,
  multiplied (with broadcasting) by the exponential of the library that was passed in; for
  a library with one entry per cell, every row of \<open>px_scale\<close> is multiplied by the
  exponential of the library entry of its cell. The rate that the decoder itself computed
  is discarded: replacing it by any other tensor leaves the result of \<open>decode\<close> unchanged.
\<close>

theorem decode_px_rate:
  assumes "decode m z mode library batch_index y s
             = Inr ((px_scale, px_r', px_rate, px_dropout), s')"
  shows "tensor_op2 (*) px_scale (map (map exp) library) = Inr px_rate
     \<and> (length library = length px_scale \<longrightarrow> (\<forall>row \<in> set library. length row = 1) \<longrightarrow>
          length px_rate = length px_scale
        \<and> (\<forall>i < length px_scale.
              px_rate ! i = map (\<lambda>v. v * exp (hd (library ! i))) (px_scale ! i)))
     \<and> (\<forall>rate'. decode (m\<lparr>decoder := \<lambda>z mode library disp b y s.
                     map_sum id (\<lambda>((sc, r, rt, d), s1). ((sc, r, rate', d), s1))
                       (decoder m z mode library disp b y s)\<rparr>) z mode library batch_index y s
                = decode m z mode library batch_index y s)"
proof -
  have r: "tensor_op2 (*) px_scale (map (map exp) library) = Inr px_rate"
    using assms by (rule decode_Inr)
  have e: "length px_rate = length px_scale
        \<and> (\<forall>i < length px_scale.
              px_rate ! i = map (\<lambda>v. v * exp (hd (library ! i))) (px_scale ! i))"
    if len: "length library = length px_scale" and one: "\<forall>row \<in> set library. length row = 1"
  proof -
    have "tensor_op2 (*) px_scale (view_col (map (\<lambda>row. exp (hd row)) library)) = Inr px_rate"
      using r singleton_rows_view_col[OF one, of exp] by simp
    moreover have "tensor_op2 (*) px_scale (view_col (map (\<lambda>row. exp (hd row)) library))
        = Inr (map2 (\<lambda>row a. map (\<lambda>v. v * a) row) px_scale (map (\<lambda>row. exp (hd row)) library))"
      by (rule tensor_op2_col) (simp add: len)
    ultimately have eq: "px_rate = map2 (\<lambda>row a. map (\<lambda>v. v * a) row) px_scale
                (map (\<lambda>row. exp (hd row)) library)"
      by simp
    show ?thesis unfolding eq using len by simp
  qed
  from r e decode_decoder_rate[where m = m] show ?thesis by blast
qed

theorem decode_px_rate_witness:
  "decode ex_model [[1]] (Some 1) [[ln 2]] (Some [0]) None 0
     = Inr (([[1/8, 1/8, 1/4, 1/4, 1/4, 1/4, 1/4]], [[1, 1, 1, 1, 1, 1, 1]],
             [[1/4, 1/4, 1/2, 1/2, 1/2, 1/2, 1/2]], [[0, 0, 0, 0, 0, 0, 0]]), 1)
   \<and> tensor_op2 (*) [[1/8, 1/8, 1/4, 1/4, 1/4, 1/4, 1/4]] (map (map exp) [[ln (2 :: real)]])
       = Inr [[1/4, 1/4, 1/2, 1/2, 1/2, 1/2, 1/2]]"
proof -
  have d: "decode ex_model [[1]] (Some 1) [[ln 2]] (Some [0]) None 0
     = Inr (([[1/8, 1/8, 1/4, 1/4, 1/4, 1/4, 1/4]], [[1, 1, 1, 1, 1, 1, 1]],
             [[1/4, 1/4, 1/2, 1/2, 1/2, 1/2, 1/2]], [[0, 0, 0, 0, 0, 0, 0]]), 1)"
    by (simp add: decode_def ex_decoder_def ex_model_resolve_px_r py_index_def
        gather_cols_def gather_row_def tensor_op2_def broadcast2_def view_col_def sum_dim1_def)
  from decode_px_rate [OF d] have
    "tensor_op2 (*) [[1/8, 1/8, 1/4, 1/4, 1/4, 1/4, 1/4]] (map (map exp) [[ln (2 :: real)]])
       = Inr [[1/4, 1/4, 1/2, 1/2, 1/2, 1/2, 1/2]]"
    by (rule conjunct1)
  with d show ?thesis by (rule conjI)
qed

subsection \<open>The resolved dispersion\<close>

lemma one_hot_Inr:
  assumes "one_hot index n_cat = Inr oh"
  obtains idx where "index = Some idx"
    "oh = map (\<lambda>i. map (\<lambda>c. if int c = i then 1 else 0) [0..<n_cat]) idx"
  using assms by (auto simp: one_hot_def split: option.splits if_splits)

lemma linear_Inr: "linear inp weight = Inr out \<Longrightarrow> out = map (\<lambda>row. map (\<lambda>w. dot row w) weight) inp"
  by (auto simp: linear_def split: if_splits)

lemma one_hot_linear_Inr:
  assumes "bindE (one_hot index n_cat) (\<lambda>oh. bindE (weight_of p) (\<lambda>w. linear oh w)) = Inr r"
  obtains idx F where "index = Some idx" "r = map F idx"
proof -
  from assms obtain oh w where a: "one_hot index n_cat = Inr oh" "weight_of p = Inr w"
    "linear oh w = Inr r"
    by (auto simp: bindE_eq_Inr)
  from a(1) obtain idx where idx: "index = Some idx"
    "oh = map (\<lambda>i. map (\<lambda>c. if int c = i then 1 else 0) [0..<n_cat]) idx"
    by (rule one_hot_Inr)
  from linear_Inr[OF a(3)] idx(2)
  have "r = map (\<lambda>i. map (\<lambda>w. dot (map (\<lambda>c. if int c = i then 1 else 0) [0..<n_cat]) w) w) idx"
    by (simp add: comp_def)
  with idx(1) that show thesis by blast
qed

lemma view_row_Inr: "view_row p = Inr t \<Longrightarrow> \<exists>v. t = [v]"
  by (auto simp: view_row_def split: option.splits parameter.splits if_splits)

lemma same_index_same_row:
  assumes "r = map F idx"
  shows "length (map (map exp) r) = length idx
     \<and> (\<forall>i < length idx. \<forall>j < length idx. idx ! i = idx ! j \<longrightarrow>
           map (map exp) r ! i = map (map exp) r ! j)"
  using assms by simp


text \<open>
  C5. When \<open>decode\<close> returns, its \<open>px_r\<close> is the elementwise exponential of the dispersion
  that the dispersion mode resolves in log space, so every entry is positive. With
  dispersion \<open>gene\<close> it is the single row of the exponentiated parameter vector, the same
  for every cell; with \<open>gene-batch\<close> (\<open>gene-label\<close>) it has one row per cell and two cells with
  the same \<open>batch_index\<close> (the same \<open>y\<close>) have the same row; with any other dispersion
  (\<open>gene-cell\<close>) it is the exponential of the raw dispersion of the decoder, cell by cell.
\<close>

theorem decode_dispersion:
  assumes "decode m z mode library batch_index y s
             = Inr ((px_scale, px_r', px_rate, px_dropout), s')"
    and "decoder m z mode library (dispersion m) batch_index y s
             = Inr ((raw_scale, px_r_raw, px_rate_raw, dropout_raw), s1)"
  shows "(\<exists>px_r_log. resolve_px_r m px_r_raw batch_index y = Inr px_r_log
            \<and> px_r' = map (map exp) px_r_log)
     \<and> (\<forall>row \<in> set px_r'. \<forall>v \<in> set row. 0 < v)
     \<and> (dispersion m = ''gene'' \<longrightarrow> (\<exists>p. view_row (px_r m) = Inr [p] \<and> px_r' = [map exp p]))
     \<and> (dispersion m = ''gene-batch'' \<longrightarrow>
          (\<exists>b. batch_index = Some b \<and> length px_r' = length b
             \<and> (\<forall>i < length b. \<forall>j < length b. b ! i = b ! j \<longrightarrow> px_r' ! i = px_r' ! j)))
     \<and> (dispersion m = ''gene-label'' \<longrightarrow>
          (\<exists>l. y = Some l \<and> length px_r' = length l
             \<and> (\<forall>i < length l. \<forall>j < length l. l ! i = l ! j \<longrightarrow> px_r' ! i = px_r' ! j)))
     \<and> (dispersion m \<notin> {''gene'', ''gene-batch'', ''gene-label''} \<longrightarrow>
          px_r' = map (map exp) px_r_raw)"
proof -
  from assms(1) obtain raw px_r_raw' px_rate_raw' px_r_log where d:
    "decoder m z mode library (dispersion m) batch_index y s
       = Inr ((raw, px_r_raw', px_rate_raw', px_dropout), s')"
    "resolve_px_r m px_r_raw' batch_index y = Inr px_r_log"
    "px_r' = map (map exp) px_r_log"
    by (rule decode_Inr)
  from d(1) assms(2) have raw: "px_r_raw' = px_r_raw" by simp
  note res = d(2)[unfolded raw]
  have 1: "\<exists>px_r_log. resolve_px_r m px_r_raw batch_index y = Inr px_r_log
            \<and> px_r' = map (map exp) px_r_log"
    using res d(3) by blast
  have 2: "\<forall>row \<in> set px_r'. \<forall>v \<in> set row. 0 < v"
    unfolding d(3) by auto
  have 3: "\<exists>p. view_row (px_r m) = Inr [p] \<and> px_r' = [map exp p]" if "dispersion m = ''gene''"
  proof -
    from res that have v: "view_row (px_r m) = Inr px_r_log" by (simp add: resolve_px_r_def)
    from view_row_Inr[OF v] obtain p where "px_r_log = [p]" ..
    with v d(3) show ?thesis by simp
  qed
  have 4: "\<exists>b. batch_index = Some b \<and> length px_r' = length b
             \<and> (\<forall>i < length b. \<forall>j < length b. b ! i = b ! j \<longrightarrow> px_r' ! i = px_r' ! j)"
    if "dispersion m = ''gene-batch''"
  proof -
    from res that have "bindE (one_hot batch_index (n_batch m))
        (\<lambda>oh. bindE (weight_of (px_r m)) (\<lambda>w. linear oh w)) = Inr px_r_log"
      by (simp add: resolve_px_r_def)
    then obtain b F where "batch_index = Some b" "px_r_log = map F b"
      by (rule one_hot_linear_Inr)
    with same_index_same_row[of px_r_log F b] d(3) show ?thesis by blast
  qed
  have 5: "\<exists>l. y = Some l \<and> length px_r' = length l
             \<and> (\<forall>i < length l. \<forall>j < length l. l ! i = l ! j \<longrightarrow> px_r' ! i = px_r' ! j)"
    if "dispersion m = ''gene-label''"
  proof -
    from res that have "bindE (one_hot y (n_labels m))
        (\<lambda>oh. bindE (weight_of (px_r m)) (\<lambda>w. linear oh w)) = Inr px_r_log"
      by (simp add: resolve_px_r_def)
    then obtain l F where "y = Some l" "px_r_log = map F l"
      by (rule one_hot_linear_Inr)
    with same_index_same_row[of px_r_log F l] d(3) show ?thesis by blast
  qed
  have 6: "px_r' = map (map exp) px_r_raw"
    if "dispersion m \<notin> {''gene'', ''gene-batch'', ''gene-label''}"
    using res that d(3) by (simp add: resolve_px_r_def)
  from 1 2 3 4 5 6 show ?thesis by blast
qed


lemma upt_0_2_one_hot:
  "one_hot (Some [1, 1]) 2 = Inr [[0, 1], [0, 1]]" "one_hot (Some [0, 0]) 2 = Inr [[1, 0], [1, 0]]"
  by (simp_all add: one_hot_def upt_0_2)

lemma ex_batch_decoder:
  "decoder ex_model [[1], [3]] (Some 0) [[0], [0]] (dispersion ex_model) (Some [1, 1]) None 0
     = Inr (([[1, 1, 2, 2, 2, 2, 2], [3, 1, 2, 2, 2, 2, 2]],
             [[1, 0, 0, 0, 0, 0, 0], [3, 0, 0, 0, 0, 0, 0]],
             [[5, 5, 5, 5, 5, 5, 5], [5, 5, 5, 5, 5, 5, 5]],
             [[0, 0, 0, 0, 0, 0, 0], [0, 0, 0, 0, 0, 0, 0]]), 1)"
  by (simp add: ex_decoder_def)

lemma ex_batch_decode:
  "decode ex_model [[1], [3]] (Some 0) [[0], [0]] (Some [1, 1]) None 0
     = Inr (([[1/4, 1/4, 1/2, 1/2, 1/2, 1/2, 1/2], [1/2, 1/6, 1/3, 1/3, 1/3, 1/3, 1/3]],
             [[exp 1, exp 1, exp 1, exp 1, exp 1, exp 1, exp 1],
              [exp 1, exp 1, exp 1, exp 1, exp 1, exp 1, exp 1]],
             [[1/4, 1/4, 1/2, 1/2, 1/2, 1/2, 1/2], [1/2, 1/6, 1/3, 1/3, 1/3, 1/3, 1/3]],
             [[0, 0, 0, 0, 0, 0, 0], [0, 0, 0, 0, 0, 0, 0]]), 1)"
  by (simp add: decode_def ex_decoder_def resolve_px_r_def upt_0_2_one_hot weight_of_def
        linear_def dot_def py_index_def
        gather_cols_def gather_row_def tensor_op2_def broadcast2_def view_col_def sum_dim1_def)

lemma ex_label_decoder:
  "decoder (ex_model\<lparr>dispersion := ''gene-label''\<rparr>) [[1], [3]] (Some 0) [[0], [0]]
       (dispersion (ex_model\<lparr>dispersion := ''gene-label''\<rparr>)) None (Some [0, 0]) 0
     = Inr (([[1, 1, 2, 2, 2, 2, 2], [3, 1, 2, 2, 2, 2, 2]],
             [[1, 0, 0, 0, 0, 0, 0], [3, 0, 0, 0, 0, 0, 0]],
             [[5, 5, 5, 5, 5, 5, 5], [5, 5, 5, 5, 5, 5, 5]],
             [[0, 0, 0, 0, 0, 0, 0], [0, 0, 0, 0, 0, 0, 0]]), 1)"
  by (simp add: ex_decoder_def)

lemma ex_label_decode:
  "decode (ex_model\<lparr>dispersion := ''gene-label''\<rparr>) [[1], [3]] (Some 0) [[0], [0]] None
       (Some [0, 0]) 0
     = Inr (([[1/4, 1/4, 1/2, 1/2, 1/2, 1/2, 1/2], [1/2, 1/6, 1/3, 1/3, 1/3, 1/3, 1/3]],
             [[1, 1, 1, 1, 1, 1, 1], [1, 1, 1, 1, 1, 1, 1]],
             [[1/4, 1/4, 1/2, 1/2, 1/2, 1/2, 1/2], [1/2, 1/6, 1/3, 1/3, 1/3, 1/3, 1/3]],
             [[0, 0, 0, 0, 0, 0, 0], [0, 0, 0, 0, 0, 0, 0]]), 1)"
  by (simp add: decode_def ex_decoder_def resolve_px_r_def upt_0_2_one_hot weight_of_def
        linear_def dot_def py_index_def
        gather_cols_def gather_row_def tensor_op2_def broadcast2_def view_col_def sum_dim1_def)

lemma ex_gene_decoder:
  "decoder ex_single [[1]] (Some 0) [[0]] (dispersion ex_single) None None 1
     = Inr (([[1, 1, 2, 2, 2, 2, 2]], [[1, 0, 0, 0, 0, 0, 0]], [[5, 5, 5, 5, 5, 5, 5]],
             [[0, 0, 0, 0, 0, 0, 0]]), 2)"
  by (simp add: ex_decoder_def)

lemma ex_cell_decoder:
  "decoder (ex_single\<lparr>dispersion := ''gene-cell''\<rparr>) [[0], [1]] (Some 0) [[0], [0]]
       (dispersion (ex_single\<lparr>dispersion := ''gene-cell''\<rparr>)) None None 0
     = Inr (([[0, 1, 2, 2, 2, 2, 2], [1, 1, 2, 2, 2, 2, 2]],
             [[0, 0, 0, 0, 0, 0, 0], [1, 0, 0, 0, 0, 0, 0]],
             [[5, 5, 5, 5, 5, 5, 5], [5, 5, 5, 5, 5, 5, 5]],
             [[0, 0, 0, 0, 0, 0, 0], [0, 0, 0, 0, 0, 0, 0]]), 1)"
  by (simp add: ex_decoder_def)

lemma ex_cell_decode:
  "decode (ex_single\<lparr>dispersion := ''gene-cell''\<rparr>) [[0], [1]] (Some 0) [[0], [0]] None None 0
     = Inr (([[0, 1/3, 2/3, 2/3, 2/3, 2/3, 2/3], [1/4, 1/4, 1/2, 1/2, 1/2, 1/2, 1/2]],
             [[1, 1, 1, 1, 1, 1, 1], [exp 1, 1, 1, 1, 1, 1, 1]],
             [[0, 1/3, 2/3, 2/3, 2/3, 2/3, 2/3], [1/4, 1/4, 1/2, 1/2, 1/2, 1/2, 1/2]],
             [[0, 0, 0, 0, 0, 0, 0], [0, 0, 0, 0, 0, 0, 0]]), 1)"
  by (simp add: decode_def ex_decoder_def resolve_px_r_def py_index_def
        gather_cols_def gather_row_def tensor_op2_def broadcast2_def view_col_def sum_dim1_def)


theorem decode_dispersion_witness:
  "decode ex_model [[1], [3]] (Some 0) [[0], [0]] (Some [1, 1]) None 0
     = Inr (([[1/4, 1/4, 1/2, 1/2, 1/2, 1/2, 1/2], [1/2, 1/6, 1/3, 1/3, 1/3, 1/3, 1/3]],
             [[exp 1, exp 1, exp 1, exp 1, exp 1, exp 1, exp 1],
              [exp 1, exp 1, exp 1, exp 1, exp 1, exp 1, exp 1]],
             [[1/4, 1/4, 1/2, 1/2, 1/2, 1/2, 1/2], [1/2, 1/6, 1/3, 1/3, 1/3, 1/3, 1/3]],
             [[0, 0, 0, 0, 0, 0, 0], [0, 0, 0, 0, 0, 0, 0]]), 1)
   \<and> dispersion ex_model = ''gene-batch''
   \<and> [[exp 1, exp 1, exp 1, exp 1, exp 1, exp 1, exp 1],
        [exp 1, exp 1, exp 1, exp 1, exp 1, exp 1, exp (1 :: real)]] ! 0
     = [[exp 1, exp 1, exp 1, exp 1, exp 1, exp 1, exp 1],
        [exp 1, exp 1, exp 1, exp 1, exp 1, exp 1, exp 1]] ! 1
   \<and> decode (ex_model\<lparr>dispersion := ''gene-label''\<rparr>) [[1], [3]] (Some 0) [[0], [0]] None
       (Some [0, 0]) 0
     = Inr (([[1/4, 1/4, 1/2, 1/2, 1/2, 1/2, 1/2], [1/2, 1/6, 1/3, 1/3, 1/3, 1/3, 1/3]],
             [[1, 1, 1, 1, 1, 1, 1], [1, 1, 1, 1, 1, 1, 1]],
             [[1/4, 1/4, 1/2, 1/2, 1/2, 1/2, 1/2], [1/2, 1/6, 1/3, 1/3, 1/3, 1/3, 1/3]],
             [[0, 0, 0, 0, 0, 0, 0], [0, 0, 0, 0, 0, 0, 0]]), 1)
   \<and> [[1, 1, 1, 1, 1, 1, 1], [1, 1, 1, 1, 1, 1, 1 :: real]] ! 0
     = [[1, 1, 1, 1, 1, 1, 1], [1, 1, 1, 1, 1, 1, 1]] ! 1
   \<and> decode ex_single [[1]] (Some 0) [[0]] None None 1
     = Inr (([[1/4, 1/4, 1/2, 1/2, 1/2, 1/2, 1/2]], [[1, 1, 1, 1, 1, 1, 1]],
             [[1/4, 1/4, 1/2, 1/2, 1/2, 1/2, 1/2]], [[0, 0, 0, 0, 0, 0, 0]]), 2)
   \<and> dispersion ex_single = ''gene''
   \<and> (\<exists>p. view_row (px_r ex_single) = Inr [p] \<and> [[1, 1, 1, 1, 1, 1, 1 :: real]] = [map exp p])
   \<and> decode (ex_single\<lparr>dispersion := ''gene-cell''\<rparr>) [[0], [1]] (Some 0) [[0], [0]] None None 0
     = Inr (([[0, 1/3, 2/3, 2/3, 2/3, 2/3, 2/3], [1/4, 1/4, 1/2, 1/2, 1/2, 1/2, 1/2]],
             [[1, 1, 1, 1, 1, 1, 1], [exp 1, 1, 1, 1, 1, 1, 1]],
             [[0, 1/3, 2/3, 2/3, 2/3, 2/3, 2/3], [1/4, 1/4, 1/2, 1/2, 1/2, 1/2, 1/2]],
             [[0, 0, 0, 0, 0, 0, 0], [0, 0, 0, 0, 0, 0, 0]]), 1)
   \<and> [[1, 1, 1, 1, 1, 1, 1], [exp 1, 1, 1, 1, 1, 1, 1 :: real]]
       = map (map exp) [[0, 0, 0, 0, 0, 0, 0], [1, 0, 0, 0, 0, 0, 0]]
   \<and> [1, 1, 1, 1, 1, 1, 1] \<noteq> [exp 1, 1, 1, 1, 1, 1, 1 :: real]"
proof -
  note batch = decode_dispersion [OF ex_batch_decode ex_batch_decoder]
  note label = decode_dispersion [OF ex_label_decode ex_label_decoder]
  note gene = decode_dispersion [OF ex_single_decode ex_gene_decoder]
  note cell = decode_dispersion [OF ex_cell_decode ex_cell_decoder]
  have db: "dispersion ex_model = ''gene-batch''" and dg: "dispersion ex_single = ''gene''"
    by simp_all
  have dc: "dispersion (ex_single\<lparr>dispersion := ''gene-cell''\<rparr>)
      \<notin> {''gene'', ''gene-batch'', ''gene-label''}"
    by simp
  have dl: "dispersion (ex_model\<lparr>dispersion := ''gene-label''\<rparr>) = ''gene-label''"
    by simp
  from batch [THEN conjunct2, THEN conjunct2, THEN conjunct2, THEN conjunct1, THEN mp, OF db]
  obtain b where b: "Some [1, 1 :: int] = Some b"
    "\<forall>i < length b. \<forall>j < length b. b ! i = b ! j \<longrightarrow>
       [[exp 1, exp 1, exp 1, exp 1, exp 1, exp 1, exp 1],
        [exp 1, exp 1, exp 1, exp 1, exp 1, exp 1, exp (1 :: real)]] ! i
     = [[exp 1, exp 1, exp 1, exp 1, exp 1, exp 1, exp 1],
        [exp 1, exp 1, exp 1, exp 1, exp 1, exp 1, exp 1]] ! j"
    by blast
  from b(1) have "b = [1, 1]" by simp
  with b(2) [rule_format, of 0 1] have b4:
    "[[exp 1, exp 1, exp 1, exp 1, exp 1, exp 1, exp 1],
      [exp 1, exp 1, exp 1, exp 1, exp 1, exp 1, exp (1 :: real)]] ! 0
     = [[exp 1, exp 1, exp 1, exp 1, exp 1, exp 1, exp 1],
        [exp 1, exp 1, exp 1, exp 1, exp 1, exp 1, exp 1]] ! 1"
    by simp
  from label [THEN conjunct2, THEN conjunct2, THEN conjunct2, THEN conjunct2, THEN conjunct1,
      THEN mp, OF dl]
  obtain l where l: "Some [0, 0 :: int] = Some l"
    "\<forall>i < length l. \<forall>j < length l. l ! i = l ! j \<longrightarrow>
       [[1, 1, 1, 1, 1, 1, 1], [1, 1, 1, 1, 1, 1, 1 :: real]] ! i
     = [[1, 1, 1, 1, 1, 1, 1], [1, 1, 1, 1, 1, 1, 1]] ! j"
    by blast
  from l(1) have "l = [0, 0]" by simp
  with l(2) [rule_format, of 0 1] have l2:
    "[[1, 1, 1, 1, 1, 1, 1], [1, 1, 1, 1, 1, 1, 1 :: real]] ! 0
     = [[1, 1, 1, 1, 1, 1, 1], [1, 1, 1, 1, 1, 1, 1]] ! 1"
    by simp
  note g3 = gene [THEN conjunct2, THEN conjunct2, THEN conjunct1, THEN mp, OF dg]
  note c6 = cell [THEN conjunct2, THEN conjunct2, THEN conjunct2, THEN conjunct2, THEN conjunct2,
      THEN mp, OF dc]
  have ne: "[1, 1, 1, 1, 1, 1, 1] \<noteq> [exp 1, 1, 1, 1, 1, 1, 1 :: real]"
    by simp
  show ?thesis
    by (intro conjI ex_batch_decode db b4 ex_label_decode l2 ex_single_decode dg g3
          ex_cell_decode c6 ne)
qed

subsection \<open>sample_rate and the decode step of forward\<close>











subsection \<open>The Kullback-Leibler terms\<close>














end
